theory Spec2Isabelle
  imports Main
begin

section \<open>Strings of the source language\<close>

text \<open>
  A string of the source is a sequence of code units. The model uses \<^typ>\<open>string\<close>: a
  \<^typ>\<open>char\<close> is the code unit with that number, so the alphabet is U+0000 to U+00FF
  (ASCII and the Latin-1 supplement). Stage names are ASCII words in practice.
  On this alphabet the character classes of the regular expression and the case
  mappings of the runtime are the following.
\<close>

definition codeUnit :: "char \<Rightarrow> nat" where
  "codeUnit c = of_char c"

text \<open>The class \<^verbatim>\<open>\w\<close> (no unicode flag): digits, ASCII letters and the underscore.\<close>

definition isWordChar :: "char \<Rightarrow> bool" where
  "isWordChar c =
     (let n = codeUnit c
      in (48 \<le> n \<and> n \<le> 57) \<or> (65 \<le> n \<and> n \<le> 90) \<or> n = 95 \<or> (97 \<le> n \<and> n \<le> 122))"

text \<open>
  The class \<^verbatim>\<open>\s\<close> below U+0100: tab, line feed, vertical tab, form feed, carriage
  return, space and the no-break space U+00A0. \<^verbatim>\<open>\S\<close> is its complement.
\<close>

definition isWhiteSpace :: "char \<Rightarrow> bool" where
  "isWhiteSpace c = (let n = codeUnit c in (9 \<le> n \<and> n \<le> 13) \<or> n = 32 \<or> n = 160)"

definition isNonSpace :: "char \<Rightarrow> bool" where
  "isNonSpace c = (\<not> isWhiteSpace c)"

text \<open>
  \<^verbatim>\<open>toLowerCase\<close> maps A to Z and U+00C0 to U+00DE (the multiplication sign U+00D7
  apart) 32 code units up, and leaves every other code unit below U+0100 alone.
\<close>

definition lowerChar :: "char \<Rightarrow> char" where
  "lowerChar c =
     (let n = codeUnit c
      in if (65 \<le> n \<and> n \<le> 90) \<or> (192 \<le> n \<and> n \<le> 222 \<and> n \<noteq> 215)
         then char_of (n + 32) else c)"

definition toLowerCase :: "string \<Rightarrow> string" where
  "toLowerCase s = map lowerChar s"

text \<open>
  \<^verbatim>\<open>toUpperCase\<close> maps a to z and U+00E0 to U+00FE (the division sign U+00F7 apart)
  32 code units down. Three code units below U+0100 have an upper case that is not one
  code unit below U+0100 (U+00B5, U+00DF, U+00FF); the model leaves them alone. None of
  them is a word character, and \<open>stageTitleCase\<close> applies \<^verbatim>\<open>toUpperCase\<close> to the
  first character of a match only, which is a word character (\<open>capitalize_match\<close>).
\<close>

definition upperChar :: "char \<Rightarrow> char" where
  "upperChar c =
     (let n = codeUnit c
      in if (97 \<le> n \<and> n \<le> 122) \<or> (224 \<le> n \<and> n \<le> 254 \<and> n \<noteq> 247)
         then char_of (n - 32) else c)"

definition toUpperCase :: "string \<Rightarrow> string" where
  "toUpperCase s = map upperChar s"

text \<open>\<^verbatim>\<open>s.charAt(i)\<close> is the empty string out of range; \<^verbatim>\<open>s.substring(i)\<close> is the rest from \<open>i\<close>.\<close>

definition charAt :: "string \<Rightarrow> nat \<Rightarrow> string" where
  "charAt s i = take 1 (drop i s)"

definition substring :: "string \<Rightarrow> nat \<Rightarrow> string" where
  "substring s i = drop i s"

section \<open>src/lib/utils.ts\<close>

definition ECR_REPOSITORY_NAME :: string where
  "ECR_REPOSITORY_NAME = ''server-repository''"

definition ECS_TASKS_URL :: string where
  "ECS_TASKS_URL = ''ecs-tasks.amazonaws.com''"

text \<open>
  The callback of \<open>stageTitleCase\<close>:
  \<^verbatim>\<open>(text) => text.charAt(0).toUpperCase() + text.substring(1).toLowerCase()\<close>.
\<close>

definition capitalize :: "string \<Rightarrow> string" where
  "capitalize text = toUpperCase (charAt text 0) @ toLowerCase (substring text 1)"

text \<open>
  \<^verbatim>\<open>str.replace(/\w\S*/g, f)\<close>: the scan goes from left to right. Where the next
  character is a word character, the match is that character and the longest run of
  non-space characters after it; \<open>f\<close> of the match is written and the scan goes on
  behind the match. Any other character is copied.
\<close>

function replaceWordRuns :: "(string \<Rightarrow> string) \<Rightarrow> string \<Rightarrow> string" where
  "replaceWordRuns f [] = []"
| "replaceWordRuns f (c # cs) =
     (if isWordChar c
      then f (c # takeWhile isNonSpace cs) @ replaceWordRuns f (dropWhile isNonSpace cs)
      else c # replaceWordRuns f cs)"
  by pat_completeness auto
termination
  by (relation "measure (\<lambda>(f, s). length s)") (auto simp: length_dropWhile_le less_Suc_eq_le)

definition stageTitleCase :: "string \<Rightarrow> string" where
  "stageTitleCase str = replaceWordRuns capitalize str"

section \<open>Tokens as the specification words them\<close>

text \<open>
  \<open>mapTokens g\<close> applies \<open>g\<close> to every whitespace-delimited token (a longest run of
  non-space characters) and keeps the whitespace between the tokens.
\<close>

function mapTokens :: "(string \<Rightarrow> string) \<Rightarrow> string \<Rightarrow> string" where
  "mapTokens g [] = []"
| "mapTokens g (c # cs) =
     (if isWhiteSpace c
      then c # mapTokens g cs
      else g (c # takeWhile isNonSpace cs) @ mapTokens g (dropWhile isNonSpace cs))"
  by pat_completeness auto
termination
  by (relation "measure (\<lambda>(g, s). length s)") (auto simp: length_dropWhile_le less_Suc_eq_le)

text \<open>
  The specification's wording: each whitespace-delimited token is capitalized, its first
  character uppercased and the remainder lowercased.
\<close>

definition spec_titleCase :: "string \<Rightarrow> string" where
  "spec_titleCase str = mapTokens capitalize str"

text \<open>
  Capitalizing a token from its first word character on: the characters before it are
  kept, that character is uppercased, the rest of the token is lowercased.
\<close>

definition isNonWordChar :: "char \<Rightarrow> bool" where
  "isNonWordChar c = (\<not> isWordChar c)"

definition capitalizeFromWord :: "string \<Rightarrow> string" where
  "capitalizeFromWord tok =
     takeWhile isNonWordChar tok @ capitalize (dropWhile isNonWordChar tok)"

text \<open>A string is at a boundary when it is empty or starts with whitespace.\<close>

definition atBoundary :: "string \<Rightarrow> bool" where
  "atBoundary s = (case s of [] \<Rightarrow> True | c # _ \<Rightarrow> isWhiteSpace c)"

section \<open>Numbers as strings\<close>

text \<open>
  \<^verbatim>\<open>Date.now()\<close> is a whole number of milliseconds (of magnitude below \<open>10^21\<close>), and
  \<^verbatim>\<open>toString()\<close> of such a number is its decimal notation, with a minus sign for a
  clock before the epoch.
\<close>

definition digitChar :: "nat \<Rightarrow> char" where
  "digitChar d = char_of (48 + d)"

function natToString :: "nat \<Rightarrow> string" where
  "natToString n = (if n < 10 then [digitChar n] else natToString (n div 10) @ [digitChar (n mod 10)])"
  by pat_completeness auto
termination
  by (relation "measure (\<lambda>n. n)") auto

declare natToString.simps [simp del]

definition numberToString :: "int \<Rightarrow> string" where
  "numberToString i = (if i < 0 then CHR ''-'' # natToString (nat (- i)) else natToString (nat i))"

text \<open>Reading decimal digits back, used to show that the notation determines the number.\<close>

definition digitValue :: "char \<Rightarrow> nat" where
  "digitValue c = codeUnit c - 48"

definition readDigits :: "string \<Rightarrow> nat" where
  "readDigits s = foldl (\<lambda>a c. 10 * a + digitValue c) 0 s"

section \<open>Construct identifiers in the toolkit\<close>

text \<open>
  The toolkit's classes are not part of the repository; the following is what they do
  with the arguments that the constructor passes. A construct keeps its identifier with
  every \<^verbatim>\<open>/\<close> replaced by \<^verbatim>\<open>--\<close>.
\<close>

definition sanitizeId :: "string \<Rightarrow> string" where
  "sanitizeId cid = concat (map (\<lambda>c. if c = CHR ''/'' then ''--'' else [c]) cid)"

text \<open>
  A string is unresolved when it contains the marker of a string token,
  \<^verbatim>\<open>${Token[\<close>, one or more of the characters \<^verbatim>\<open>a-zA-Z0-9:._-\<close> and \<^verbatim>\<open>]}\<close>, or a
  stringified number token, \<^verbatim>\<open>-1.\<close>, 10 to 16 digits and \<^verbatim>\<open>e+289\<close>.
\<close>

definition isKeyChar :: "char \<Rightarrow> bool" where
  "isKeyChar c = (isWordChar c \<or> c = CHR '':'' \<or> c = CHR ''.'' \<or> c = CHR ''-'')"

definition isDigit :: "char \<Rightarrow> bool" where
  "isDigit c = (let n = codeUnit c in 48 \<le> n \<and> n \<le> 57)"

definition startsWith :: "string \<Rightarrow> string \<Rightarrow> bool" where
  "startsWith s p = (take (length p) s = p)"

definition stringTokenAt :: "string \<Rightarrow> bool" where
  "stringTokenAt s =
     (startsWith s ''${Token['' \<and>
      (let rest = drop 8 s
       in takeWhile isKeyChar rest \<noteq> [] \<and> startsWith (dropWhile isKeyChar rest) '']}''))"

definition numberTokenAt :: "string \<Rightarrow> bool" where
  "numberTokenAt s =
     (startsWith s ''-1.'' \<and>
      (let rest = drop 3 s; n = length (takeWhile isDigit rest)
       in 10 \<le> n \<and> n \<le> 16 \<and> startsWith (dropWhile isDigit rest) ''e+289''))"

fun unresolved :: "string \<Rightarrow> bool" where
  "unresolved [] = False"
| "unresolved (c # cs) = (stringTokenAt (c # cs) \<or> numberTokenAt (c # cs) \<or> unresolved cs)"

declare unresolved.simps [simp del]

text \<open>
  The toolkit refuses a construct identifier with an unresolved token in it: it throws
  when it derives a unique name from the identifier, which it does for the identifiers of
  this stack while the constructor runs. In the model the error is raised where the
  construct is created; either way the constructor does not return.
\<close>

datatype error = UnresolvedTokenInId

definition bindE :: "error + 'a \<Rightarrow> ('a \<Rightarrow> error + 'b) \<Rightarrow> error + 'b" where
  "bindE m f = (case m of Inl e \<Rightarrow> Inl e | Inr x \<Rightarrow> f x)"

section \<open>The resource graph\<close>

text \<open>
  Every \<^verbatim>\<open>new C(this, id, props)\<close> and every static \<^verbatim>\<open>C.fromX(this, id, ...)\<close> of the
  constructor adds one child \<open>(id, construct)\<close> to the stack, and the object it returns
  is a reference to that child, its position in the order of creation. Of what the
  toolkit derives from a construct the model has the statements that
  \<^verbatim>\<open>addContainer\<close> grants to the execution role and the two outputs that the
  load-balanced service declares in its own scope. The load balancer, listener and
  target group of the service and their security rules (for the listener port and the
  container port) are not modelled.
\<close>

type_synonym ref = nat

text \<open>
  A value that is only known at provisioning time is a token: the identifier (ARN) of a
  secret, a repository or the log group of a container, the hostname of the load
  balancer of a service, and two values joined.
\<close>

datatype token =
    Plain string
  | SecretArn ref
  | RepositoryArn ref
  | LogGroupArn ref nat
  | LoadBalancerDnsName ref
  | Concat token token

datatype effect = ALLOW | DENY

datatype application_protocol = HTTP | HTTPS

definition protocolName :: "application_protocol \<Rightarrow> string" where
  "protocolName p = (case p of HTTP \<Rightarrow> ''HTTP'' | HTTPS \<Rightarrow> ''HTTPS'')"

datatype subnet_type = PRIVATE_ISOLATED | PRIVATE_WITH_EGRESS | PUBLIC

datatype retention_days = ONE_DAY | THREE_DAYS | FIVE_DAYS | ONE_WEEK | TWO_WEEKS | ONE_MONTH

datatype port = Tcp nat | Udp nat | AllTraffic

record policy_statement =
  effect :: effect
  actions :: "string list"
  resources :: "token list"

record role =
  assumedBy :: string
  policyStatements :: "policy_statement list"

datatype container_image = FromEcrRepository ref string

datatype ecs_secret = FromSecretsManager ref string

record aws_logs =
  streamPrefix :: string
  logRetention :: retention_days

record port_mapping =
  containerPort :: nat

record container_definition_options =
  containerImage :: container_image
  environment :: "(string \<times> string) list"
  secrets :: "(string \<times> ecs_secret) list"
  logging :: aws_logs

record container_definition =
  containerName :: string
  options :: container_definition_options
  portMappings :: "port_mapping list"

record task_definition =
  memoryLimitMiB :: nat
  cpu :: nat
  executionRole :: ref
  taskRole :: ref
  containers :: "container_definition list"

record security_group =
  vpc :: string
  allowAllOutbound :: bool

record subnet_selection =
  subnetType :: subnet_type

record load_balanced_service =
  cluster :: ref
  taskDefinition :: ref
  publicLoadBalancer :: bool
  assignPublicIp :: bool
  protocol :: application_protocol
  listenerPort :: nat
  securityGroups :: "ref list"
  taskSubnets :: subnet_selection

text \<open>
  The second argument of \<open>ApplicationLoadBalancedFargateService\<close> is the list of the
  outputs that the service declares in its own scope.
\<close>

datatype construct =
    Secret_fromSecretNameV2 string
  | Cluster string
  | Role role
  | FargateTaskDefinition task_definition
  | Repository_fromRepositoryName string
  | SecurityGroup security_group
  | SecurityGroup_fromSecurityGroupId string
  | ApplicationLoadBalancedFargateService load_balanced_service "(string \<times> token) list"
  | CfnOutput token

text \<open>
  \<^verbatim>\<open>a.connections.allowFrom(b, port, description)\<close> allows traffic from \<open>b\<close> to \<open>a\<close>:
  \<open>securityGroup\<close> is \<open>a\<close>, \<open>peer\<close> is \<open>b\<close>.
\<close>

record allow_rule =
  securityGroup :: ref
  peer :: ref
  portRange :: port
  description :: string

record stack =
  children :: "(string \<times> construct) list"
  allowRules :: "allow_rule list"

definition newConstruct :: "string \<Rightarrow> construct \<Rightarrow> stack \<Rightarrow> error + ref \<times> stack" where
  "newConstruct cid c st =
     (if unresolved (sanitizeId cid) then Inl UnresolvedTokenInId
      else Inr (length (children st), st\<lparr>children := children st @ [(sanitizeId cid, c)]\<rparr>))"

definition construct :: "stack \<Rightarrow> ref \<Rightarrow> construct option" where
  "construct st r = (if r < length (children st) then Some (snd (children st ! r)) else None)"

definition modify :: "ref \<Rightarrow> (construct \<Rightarrow> construct) \<Rightarrow> stack \<Rightarrow> stack" where
  "modify r f st =
     (if r < length (children st)
      then st\<lparr>children := (children st)[r := (fst (children st ! r), f (snd (children st ! r)))]\<rparr>
      else st)"

text \<open>\<^verbatim>\<open>role.addToPolicy(statement)\<close> appends to the policy of the role object.\<close>

definition addToPolicy :: "ref \<Rightarrow> policy_statement \<Rightarrow> stack \<Rightarrow> stack" where
  "addToPolicy r stmt =
     modify r (\<lambda>c. case c of
                      Role ro \<Rightarrow> Role (ro\<lparr>policyStatements := policyStatements ro @ [stmt]\<rparr>)
                    | _ \<Rightarrow> c)"

text \<open>
  \<^verbatim>\<open>taskDefinition.addToTaskRolePolicy(statement)\<close> adds the statement to the role
  object that the task definition holds as its task role.
\<close>

definition addToTaskRolePolicy :: "ref \<Rightarrow> policy_statement \<Rightarrow> stack \<Rightarrow> stack" where
  "addToTaskRolePolicy td stmt st =
     (case construct st td of
        Some (FargateTaskDefinition t) \<Rightarrow> addToPolicy (taskRole t) stmt st
      | _ \<Rightarrow> st)"

text \<open>
  The grants of the toolkit. \<^verbatim>\<open>repository.grantPull(role)\<close> allows the three pull
  actions on the repository and the authorization token on every resource;
  \<^verbatim>\<open>logGroup.grantWrite(role)\<close> allows writing to the log group;
  \<^verbatim>\<open>secret.grantRead(role)\<close> of a secret imported by name allows reading the secret
  whatever suffix the secrets service gave its identifier.
\<close>

definition grantPull :: "ref \<Rightarrow> ref \<Rightarrow> stack \<Rightarrow> stack" where
  "grantPull repository grantee st =
     addToPolicy grantee
       \<lparr>effect = ALLOW, actions = [''ecr:GetAuthorizationToken''], resources = [Plain ''*'']\<rparr>
       (addToPolicy grantee
          \<lparr>effect = ALLOW,
           actions =
             [''ecr:BatchCheckLayerAvailability'',
              ''ecr:GetDownloadUrlForLayer'',
              ''ecr:BatchGetImage''],
           resources = [RepositoryArn repository]\<rparr> st)"

definition grantWrite :: "token \<Rightarrow> ref \<Rightarrow> stack \<Rightarrow> stack" where
  "grantWrite logGroupArn grantee st =
     addToPolicy grantee
       \<lparr>effect = ALLOW,
        actions = [''logs:CreateLogStream'', ''logs:PutLogEvents''],
        resources = [logGroupArn]\<rparr> st"

definition grantRead :: "ref \<Rightarrow> ref \<Rightarrow> stack \<Rightarrow> stack" where
  "grantRead secret grantee st =
     addToPolicy grantee
       \<lparr>effect = ALLOW,
        actions = [''secretsmanager:GetSecretValue'', ''secretsmanager:DescribeSecret''],
        resources = [Concat (SecretArn secret) (Plain ''-??????'')]\<rparr> st"

text \<open>
  \<^verbatim>\<open>taskDefinition.addContainer(id, props)\<close> creates the container in the scope of the
  task definition, named by its identifier. Binding the image grants the execution role
  of the task definition the pull from the repository, binding the log driver creates
  the log group of the container and grants the role to write to it, and every secret
  grants the role to read it. The result is the new container, here the pair of the task
  definition and the container's position in it.
\<close>

definition addContainer ::
  "ref \<Rightarrow> string \<Rightarrow> container_definition_options \<Rightarrow> stack \<Rightarrow> error + (ref \<times> nat) \<times> stack" where
  "addContainer td cid opts st =
     (case construct st td of
        Some (FargateTaskDefinition t) \<Rightarrow>
          (if unresolved (sanitizeId cid) then Inl UnresolvedTokenInId
           else
             (let grantee = executionRole t;
                  position = length (containers t);
                  st = (case containerImage opts of
                          FromEcrRepository repository tag \<Rightarrow> grantPull repository grantee st);
                  st = grantWrite (LogGroupArn td position) grantee st;
                  st = foldl (\<lambda>s binding.
                                case snd binding of
                                  FromSecretsManager secret field \<Rightarrow> grantRead secret grantee s)
                         st (secrets opts);
                  st = modify td (\<lambda>c. case c of
                         FargateTaskDefinition t' \<Rightarrow>
                           FargateTaskDefinition
                             (t'\<lparr>containers := containers t' @
                                  [\<lparr>containerName = sanitizeId cid, options = opts,
                                    portMappings = []\<rparr>]\<rparr>)
                       | _ \<Rightarrow> c) st
              in Inr ((td, position), st)))
      | _ \<Rightarrow> Inr ((td, 0), st))"

definition addPortMappings :: "ref \<times> nat \<Rightarrow> port_mapping \<Rightarrow> stack \<Rightarrow> stack" where
  "addPortMappings container pm =
     modify (fst container) (\<lambda>c. case c of
        FargateTaskDefinition t \<Rightarrow>
          (if snd container < length (containers t)
           then FargateTaskDefinition (t\<lparr>containers := (containers t)[snd container :=
                  (containers t ! snd container)
                    \<lparr>portMappings := portMappings (containers t ! snd container) @ [pm]\<rparr>]\<rparr>)
           else c)
      | _ \<Rightarrow> c)"

text \<open>
  \<^verbatim>\<open>new ApplicationLoadBalancedFargateService(this, id, props)\<close> declares two outputs of
  its own: \<^verbatim>\<open>LoadBalancerDNS\<close>, the hostname of its load balancer, and
  \<^verbatim>\<open>ServiceURL\<close>, the protocol in lower case, \<^verbatim>\<open>://\<close> and that hostname.
\<close>

definition newApplicationLoadBalancedFargateService ::
  "string \<Rightarrow> load_balanced_service \<Rightarrow> stack \<Rightarrow> error + ref \<times> stack" where
  "newApplicationLoadBalancedFargateService cid props st =
     (let self = length (children st)
      in newConstruct cid
           (ApplicationLoadBalancedFargateService props
              [(''LoadBalancerDNS'', LoadBalancerDnsName self),
               (''ServiceURL'',
                Concat (Plain (toLowerCase (protocolName (protocol props)) @ ''://''))
                       (LoadBalancerDnsName self))]) st)"

definition allowFrom :: "ref \<Rightarrow> ref \<Rightarrow> port \<Rightarrow> string \<Rightarrow> stack \<Rightarrow> stack" where
  "allowFrom this other p descr st =
     st\<lparr>allowRules := allowRules st @
        [\<lparr>securityGroup = this, peer = other, portRange = p, description = descr\<rparr>]\<rparr>"

section \<open>The deployment stack\<close>

text \<open>
  What the constructor reads from outside the two source files. The module
  \<^verbatim>\<open>./utils\<close> that the stack imports also exports \<^verbatim>\<open>getVpc\<close>,
  \<^verbatim>\<open>RDS_SECRET_NAME_SSM_NAME\<close> and \<^verbatim>\<open>RDS_SECURITY_GROUP_ID_SSM_NAME\<close>, which are not in
  the sources at hand: they are parameters. \<open>getVpc\<close> is the reference to the existing
  virtual network. \<open>valueFromLookup\<close> is \<^verbatim>\<open>StringParameter.valueFromLookup(this, name)\<close>
  and \<open>dateNow\<close> the clock reading \<^verbatim>\<open>Date.now()\<close> of the pass.
\<close>

record cdk_context =
  RDS_SECRET_NAME_SSM_NAME :: string
  RDS_SECURITY_GROUP_ID_SSM_NAME :: string
  valueFromLookup :: "string \<Rightarrow> string"
  getVpc :: string
  dateNow :: int

record deployment_stack_props =
  stageName :: string
  imageTag :: string

text \<open>
  The constructor of \<^verbatim>\<open>DeploymentStack\<close>, statement by statement. \<open>this\<close> is the stack
  under construction; the arguments \<^verbatim>\<open>scope\<close> and \<^verbatim>\<open>id\<close> only go to the superclass.
  A statement that throws ends the constructor with the error.
\<close>

definition DeploymentStack :: "cdk_context \<Rightarrow> deployment_stack_props \<Rightarrow> error + stack" where
  "DeploymentStack ctx props =
    (let stageTitle = stageTitleCase (stageName props);
         vpc = getVpc ctx;
         this = \<lparr>children = [], allowRules = []\<rparr>
     in
     bindE (newConstruct ''dbSecret''
             (Secret_fromSecretNameV2 (valueFromLookup ctx (RDS_SECRET_NAME_SSM_NAME ctx))) this)
       (\<lambda>(dbSecret, this).
     let secretsManagerPermissions =
           \<lparr>effect = ALLOW,
            actions = [''secretsmanager:GetSecretValue''],
            resources = [SecretArn dbSecret]\<rparr>
     in
     bindE (newConstruct (''ECS'' @ stageTitle @ ''-Cluster'') (Cluster vpc) this)
       (\<lambda>(ecsCluster, this).
     bindE (newConstruct (stageTitle @ ''ExecutionRole'')
             (Role \<lparr>assumedBy = ECS_TASKS_URL, policyStatements = []\<rparr>) this)
       (\<lambda>(executionRole, this).
     let this =
           addToPolicy executionRole
             \<lparr>effect = ALLOW,
              actions =
                [''ecr:GetAuthorizationToken'',
                 ''ecr:BatchCheckLayerAvailability'',
                 ''ecr:GetDownloadUrlForLayer'',
                 ''ecr:BatchGetImage'',
                 ''logs:CreateLogStream'',
                 ''logs:PutLogEvents''],
              resources = [Plain ''*'']\<rparr> this
     in
     bindE (newConstruct (stageTitle @ ''TaskRole'')
             (Role \<lparr>assumedBy = ECS_TASKS_URL, policyStatements = []\<rparr>) this)
       (\<lambda>(taskRole, this).
     bindE (newConstruct (''TaskDef-'' @ stageName props)
             (FargateTaskDefinition
               \<lparr>memoryLimitMiB = 512, cpu = 256,
                executionRole = executionRole, taskRole = taskRole,
                containers = []\<rparr>) this)
       (\<lambda>(taskDefinition, this).
     let this = addToTaskRolePolicy taskDefinition secretsManagerPermissions this
     in
     bindE (newConstruct ''ECR'' (Repository_fromRepositoryName ECR_REPOSITORY_NAME) this)
       (\<lambda>(repository, this).
     bindE (addContainer taskDefinition (stageTitle @ ''Container'')
             \<lparr>containerImage = FromEcrRepository repository (imageTag props),
              environment = [(''FORCE_DEPLOYMENT_ENV_VAR'', numberToString (dateNow ctx))],
              secrets =
                [(''DBHOST'', FromSecretsManager dbSecret ''host''),
                 (''DBNAME'', FromSecretsManager dbSecret ''dbname''),
                 (''DBUSER'', FromSecretsManager dbSecret ''username''),
                 (''DBPASS'', FromSecretsManager dbSecret ''password''),
                 (''DBPORT'', FromSecretsManager dbSecret ''port'')],
              logging = \<lparr>streamPrefix = stageTitle @ ''Logs'', logRetention = TWO_WEEKS\<rparr>\<rparr>
             this)
       (\<lambda>(container, this).
     let this = addPortMappings container \<lparr>containerPort = 3000\<rparr> this
     in
     bindE (newConstruct (stageTitle @ ''FargateSecurityGroup'')
             (SecurityGroup \<lparr>vpc = vpc, allowAllOutbound = True\<rparr>) this)
       (\<lambda>(fargateSecurityGroup, this).
     bindE (newApplicationLoadBalancedFargateService (stageTitle @ ''Service'')
             \<lparr>cluster = ecsCluster,
              taskDefinition = taskDefinition,
              publicLoadBalancer = True,
              assignPublicIp = True,
              protocol = HTTP,
              listenerPort = 80,
              securityGroups = [fargateSecurityGroup],
              taskSubnets = \<lparr>subnetType = PUBLIC\<rparr>\<rparr> this)
       (\<lambda>(fargateService, this).
     bindE (newConstruct (''RDS'' @ stageTitle @ ''SecurityGroup'')
             (SecurityGroup_fromSecurityGroupId
               (valueFromLookup ctx (RDS_SECURITY_GROUP_ID_SSM_NAME ctx))) this)
       (\<lambda>(rdsSecurityGroup, this).
     let this =
           allowFrom rdsSecurityGroup fargateSecurityGroup (Tcp 5432)
             ''Allow traffic from fargate/ECS'' this;
         this =
           allowFrom fargateSecurityGroup rdsSecurityGroup (Tcp 5432)
             ''Allow traffic from RDS'' this
     in
     bindE (newConstruct (''LoadBalancer'' @ stageTitle @ ''DNS'')
             (CfnOutput (LoadBalancerDnsName fargateService)) this)
       (\<lambda>(output, this). Inr this))))))))))))"

text \<open>
  The identifiers that the constructor passes, in the order of creation, and the stage
  names with which the toolkit accepts them all.
\<close>

definition constructIds :: "string \<Rightarrow> string list" where
  "constructIds stage =
     (let stageTitle = stageTitleCase stage
      in [''dbSecret'',
          ''ECS'' @ stageTitle @ ''-Cluster'',
          stageTitle @ ''ExecutionRole'',
          stageTitle @ ''TaskRole'',
          ''TaskDef-'' @ stage,
          ''ECR'',
          stageTitle @ ''Container'',
          stageTitle @ ''FargateSecurityGroup'',
          stageTitle @ ''Service'',
          ''RDS'' @ stageTitle @ ''SecurityGroup'',
          ''LoadBalancer'' @ stageTitle @ ''DNS''])"

definition isResolved :: "string \<Rightarrow> bool" where
  "isResolved cid = (\<not> unresolved (sanitizeId cid))"

definition validStageName :: "string \<Rightarrow> bool" where
  "validStageName stage = list_all isResolved (constructIds stage)"

text \<open>
  The scenario of the specification: stage name \<open>''staging''\<close>, image tag \<open>''abc123''\<close>,
  in a context that stands for one provisioning pass.
\<close>

definition scenarioProps :: deployment_stack_props where
  "scenarioProps = \<lparr>stageName = ''staging'', imageTag = ''abc123''\<rparr>"

definition scenarioContext :: cdk_context where
  "scenarioContext =
     \<lparr>RDS_SECRET_NAME_SSM_NAME = ''rds-secret-name'',
      RDS_SECURITY_GROUP_ID_SSM_NAME = ''rds-security-group-id'',
      valueFromLookup = (\<lambda>name. ''value-of-'' @ name),
      getVpc = ''vpc'',
      dateNow = 1000\<rparr>"

section \<open>Reading the resource graph\<close>

definition constructs :: "stack \<Rightarrow> construct list" where
  "constructs st = map snd (children st)"

definition clusterOf :: "construct \<Rightarrow> string list" where
  "clusterOf c = (case c of Cluster v \<Rightarrow> [v] | _ \<Rightarrow> [])"

definition taskDefinitionOf :: "construct \<Rightarrow> task_definition list" where
  "taskDefinitionOf c = (case c of FargateTaskDefinition t \<Rightarrow> [t] | _ \<Rightarrow> [])"

definition serviceOf :: "construct \<Rightarrow> load_balanced_service list" where
  "serviceOf c = (case c of ApplicationLoadBalancedFargateService s outs \<Rightarrow> [s] | _ \<Rightarrow> [])"

text \<open>
  The outputs that a construct publishes: an output publishes its value, a
  load-balanced service the outputs of its own scope.
\<close>

definition outputsOf :: "construct \<Rightarrow> token list" where
  "outputsOf c =
     (case c of
        CfnOutput v \<Rightarrow> [v]
      | ApplicationLoadBalancedFargateService s outs \<Rightarrow> map snd outs
      | _ \<Rightarrow> [])"

definition outputNamesOf :: "string \<times> construct \<Rightarrow> string list" where
  "outputNamesOf idc =
     (case snd idc of
        CfnOutput v \<Rightarrow> [fst idc]
      | ApplicationLoadBalancedFargateService s outs \<Rightarrow> map fst outs
      | _ \<Rightarrow> [])"

definition clusters :: "stack \<Rightarrow> string list" where
  "clusters st = concat (map clusterOf (constructs st))"

definition taskDefinitions :: "stack \<Rightarrow> task_definition list" where
  "taskDefinitions st = concat (map taskDefinitionOf (constructs st))"

definition services :: "stack \<Rightarrow> load_balanced_service list" where
  "services st = concat (map serviceOf (constructs st))"

definition outputs :: "stack \<Rightarrow> token list" where
  "outputs st = concat (map outputsOf (constructs st))"

definition outputNames :: "stack \<Rightarrow> string list" where
  "outputNames st = concat (map outputNamesOf (children st))"

definition rulesForPort :: "port \<Rightarrow> stack \<Rightarrow> allow_rule list" where
  "rulesForPort p st = filter (\<lambda>r. portRange r = p) (allowRules st)"

definition allContainers :: "stack \<Rightarrow> container_definition list" where
  "allContainers st = concat (map containers (taskDefinitions st))"

definition containerPorts :: "stack \<Rightarrow> nat list" where
  "containerPorts st = map containerPort (concat (map portMappings (allContainers st)))"

definition plainEnvironment :: "stack \<Rightarrow> (string \<times> string) list" where
  "plainEnvironment st = concat (map (environment \<circ> options) (allContainers st))"

definition forceDeploymentValues :: "stack \<Rightarrow> string list" where
  "forceDeploymentValues st =
     map snd (filter (\<lambda>kv. fst kv = ''FORCE_DEPLOYMENT_ENV_VAR'') (plainEnvironment st))"

definition secretBindings :: "stack \<Rightarrow> (string \<times> ecs_secret) list" where
  "secretBindings st = concat (map (secrets \<circ> options) (allContainers st))"

text \<open>
  A policy is rendered without the statements that repeat an earlier one. \<open>policyOf\<close> is
  the rendered policy of the role that a reference points to, empty if it is no role.
\<close>

definition renderStatements :: "policy_statement list \<Rightarrow> policy_statement list" where
  "renderStatements stmts = foldl (\<lambda>kept s. if s \<in> set kept then kept else kept @ [s]) [] stmts"

definition policyOf :: "stack \<Rightarrow> ref \<Rightarrow> policy_statement list" where
  "policyOf st r =
     (case construct st r of
        Some (Role ro) \<Rightarrow> renderStatements (policyStatements ro)
      | _ \<Rightarrow> [])"

definition executionPolicy :: "stack \<Rightarrow> policy_statement list" where
  "executionPolicy st = concat (map (\<lambda>t. policyOf st (executionRole t)) (taskDefinitions st))"

definition taskPolicy :: "stack \<Rightarrow> policy_statement list" where
  "taskPolicy st = concat (map (\<lambda>t. policyOf st (taskRole t)) (taskDefinitions st))"

text \<open>An action is \<^verbatim>\<open>service:Operation\<close>; a wildcard action has an asterisk in it.\<close>

definition actionService :: "string \<Rightarrow> string" where
  "actionService a = takeWhile (\<lambda>c. c \<noteq> CHR '':'') a"

definition isWildcardAction :: "string \<Rightarrow> bool" where
  "isWildcardAction a = (CHR ''*'' \<in> set a)"

text \<open>
  The functional fields of a resource graph: everything but the construct identifiers,
  the container names and the log-stream prefixes, which are blanked. References are
  positions, so the wiring between the constructs is kept.
\<close>

definition unnamedContainer :: "container_definition \<Rightarrow> container_definition" where
  "unnamedContainer c =
     c\<lparr>containerName := [],
       options := (options c)\<lparr>logging := (logging (options c))\<lparr>streamPrefix := []\<rparr>\<rparr>\<rparr>"

definition unnamedConstruct :: "construct \<Rightarrow> construct" where
  "unnamedConstruct c =
     (case c of
        FargateTaskDefinition t \<Rightarrow>
          FargateTaskDefinition (t\<lparr>containers := map unnamedContainer (containers t)\<rparr>)
      | _ \<Rightarrow> c)"

definition functionalFields :: "stack \<Rightarrow> stack" where
  "functionalFields st = st\<lparr>children := map (\<lambda>idc. ([], unnamedConstruct (snd idc))) (children st)\<rparr>"

section \<open>Properties of title-casing\<close>

lemma lowerChar_idem: "lowerChar (lowerChar c) = lowerChar c"
  unfolding lowerChar_def codeUnit_def Let_def
  by (auto simp: of_char_of)

lemma upperChar_idem: "upperChar (upperChar c) = upperChar c"
  unfolding upperChar_def codeUnit_def Let_def
  by (auto simp: of_char_of)

lemma isWhiteSpace_lowerChar: "isWhiteSpace (lowerChar c) = isWhiteSpace c"
  unfolding lowerChar_def isWhiteSpace_def codeUnit_def Let_def
  by (auto simp: of_char_of)

lemma isWordChar_upperChar: "isWordChar c \<Longrightarrow> isWordChar (upperChar c)"
  unfolding upperChar_def isWordChar_def codeUnit_def Let_def
  by (auto simp: of_char_of)

lemma isWordChar_isNonSpace: "isWordChar c \<Longrightarrow> isNonSpace c"
  unfolding isNonSpace_def isWhiteSpace_def isWordChar_def codeUnit_def Let_def
  by auto

lemma capitalize_Nil: "capitalize [] = []"
  by (simp add: capitalize_def charAt_def substring_def toUpperCase_def toLowerCase_def)

lemma capitalize_Cons: "capitalize (c # cs) = upperChar c # map lowerChar cs"
  by (simp add: capitalize_def charAt_def substring_def toUpperCase_def toLowerCase_def)

text \<open>
  On the first character of a match the model's \<open>upperChar\<close> is the runtime's mapping:
  a word character is ASCII, and only a to z change, by 32 code units.
\<close>

lemma capitalize_match:
  "isWordChar c \<Longrightarrow>
   capitalize (c # cs) =
     (if 97 \<le> codeUnit c \<and> codeUnit c \<le> 122 then char_of (codeUnit c - 32) else c)
       # toLowerCase cs"
  unfolding capitalize_Cons toLowerCase_def upperChar_def isWordChar_def Let_def
  by auto

lemma atBoundary_dropWhile: "atBoundary (dropWhile isNonSpace cs)"
  by (induction cs) (auto simp: atBoundary_def isNonSpace_def)

lemma takeWhile_run:
  "list_all isNonSpace xs \<Longrightarrow> atBoundary ys \<Longrightarrow> takeWhile isNonSpace (xs @ ys) = xs"
  by (induction xs) (auto simp: atBoundary_def isNonSpace_def split: list.splits)

lemma dropWhile_run:
  "list_all isNonSpace xs \<Longrightarrow> atBoundary ys \<Longrightarrow> dropWhile isNonSpace (xs @ ys) = ys"
  by (induction xs) (auto simp: atBoundary_def isNonSpace_def split: list.splits)

lemma replaceWordRuns_match:
  "isWordChar x \<Longrightarrow> list_all isNonSpace xs \<Longrightarrow> atBoundary ys \<Longrightarrow>
   replaceWordRuns f (x # xs @ ys) = f (x # xs) @ replaceWordRuns f ys"
  by (simp add: takeWhile_run dropWhile_run)

lemma atBoundary_replaceWordRuns: "atBoundary s \<Longrightarrow> atBoundary (replaceWordRuns f s)"
  by (cases s) (auto simp: atBoundary_def isNonSpace_def dest: isWordChar_isNonSpace)

lemma nonSpace_takeWhile: "list_all isNonSpace (takeWhile isNonSpace xs)"
  by (induction xs) auto

lemma nonSpace_lower: "list_all isNonSpace xs \<Longrightarrow> list_all isNonSpace (map lowerChar xs)"
  by (induction xs) (auto simp: isNonSpace_def isWhiteSpace_lowerChar)

lemma replaceWordRuns_capitalize_idem:
  "replaceWordRuns capitalize (replaceWordRuns capitalize s) = replaceWordRuns capitalize s"
proof (induction capitalize s rule: replaceWordRuns.induct)
  case 1
  show ?case by simp
next
  case (2 c cs)
  show ?case
  proof (cases "isWordChar c")
    case True
    let ?run = "takeWhile isNonSpace cs" and ?rest = "dropWhile isNonSpace cs"
    have "replaceWordRuns capitalize (replaceWordRuns capitalize (c # cs))
        = replaceWordRuns capitalize
            (upperChar c # map lowerChar ?run @ replaceWordRuns capitalize ?rest)"
      using True by (simp add: capitalize_Cons)
    also have "\<dots> = capitalize (upperChar c # map lowerChar ?run)
                    @ replaceWordRuns capitalize (replaceWordRuns capitalize ?rest)"
      using True
      by (intro replaceWordRuns_match isWordChar_upperChar nonSpace_lower nonSpace_takeWhile
          atBoundary_replaceWordRuns atBoundary_dropWhile)
    also have "\<dots> = capitalize (c # ?run) @ replaceWordRuns capitalize ?rest"
      using 2(1)[OF True] by (simp add: capitalize_Cons upperChar_idem lowerChar_idem)
    also have "\<dots> = replaceWordRuns capitalize (c # cs)"
      using True by simp
    finally show ?thesis .
  next
    case False
    then show ?thesis using 2(2) by simp
  qed
qed

text \<open>
  Claim C7. For every non-empty string \<open>s\<close>, title-casing is idempotent:
  \<open>stageTitleCase (stageTitleCase s) = stageTitleCase s\<close>.
\<close>

theorem stageTitleCase_idempotent:
  "s \<noteq> [] \<Longrightarrow> stageTitleCase (stageTitleCase s) = stageTitleCase s"
  by (simp add: stageTitleCase_def replaceWordRuns_capitalize_idem)

theorem stageTitleCase_idempotent_witness:
  "''user-acc test'' \<noteq> [] \<and>
   stageTitleCase ''user-acc test'' = ''User-acc Test'' \<and>
   stageTitleCase (stageTitleCase ''user-acc test'') = stageTitleCase ''user-acc test''"
proof -
  have ne: "''user-acc test'' \<noteq> []" by simp
  have ev: "stageTitleCase ''user-acc test'' = ''User-acc Test''" by code_simp
  show ?thesis using ne ev stageTitleCase_idempotent [OF ne] by simp
qed

lemma replaceWordRuns_token:
  "list_all isNonSpace t \<Longrightarrow> atBoundary ys \<Longrightarrow>
   replaceWordRuns capitalize (t @ ys) = capitalizeFromWord t @ replaceWordRuns capitalize ys"
proof (induction t)
  case Nil
  show ?case by (simp add: capitalizeFromWord_def capitalize_Nil)
next
  case (Cons x xs)
  show ?case
  proof (cases "isWordChar x")
    case True
    have "replaceWordRuns capitalize (x # xs @ ys)
        = capitalize (x # xs) @ replaceWordRuns capitalize ys"
      using True Cons.prems by (intro replaceWordRuns_match) simp_all
    then show ?thesis using True by (simp add: capitalizeFromWord_def isNonWordChar_def)
  next
    case False
    then show ?thesis using Cons by (simp add: capitalizeFromWord_def isNonWordChar_def)
  qed
qed

lemma replaceWordRuns_mapTokens:
  "replaceWordRuns capitalize s = mapTokens capitalizeFromWord s"
proof (induction capitalizeFromWord s rule: mapTokens.induct)
  case 1
  show ?case by simp
next
  case (2 c cs)
  show ?case
  proof (cases "isWhiteSpace c")
    case True
    then have "\<not> isWordChar c"
      using isWordChar_isNonSpace by (auto simp: isNonSpace_def)
    then show ?thesis using True 2(1) by simp
  next
    case False
    let ?tok = "c # takeWhile isNonSpace cs" and ?rest = "dropWhile isNonSpace cs"
    have tok: "list_all isNonSpace ?tok"
      using False by (simp add: isNonSpace_def nonSpace_takeWhile)
    have "replaceWordRuns capitalize (?tok @ ?rest)
        = capitalizeFromWord ?tok @ replaceWordRuns capitalize ?rest"
      using tok atBoundary_dropWhile by (rule replaceWordRuns_token)
    moreover have "?tok @ ?rest = c # cs" by simp
    ultimately show ?thesis using False 2(2) by simp
  qed
qed

text \<open>
  Claim C8, as amended. \<open>stageTitleCase ''production'' = ''Production''\<close> and
  \<open>stageTitleCase ''user-acc test'' = ''User-acc Test''\<close>, and for every string each
  whitespace-delimited token is capitalized from its first word character on: the
  characters of the token before it are kept, that character is uppercased and the rest
  of the token lowercased. Punctuation inside a token does not split it.
\<close>

theorem stageTitleCase_capitalizes_tokens:
  "stageTitleCase ''production'' = ''Production'' \<and>
   stageTitleCase ''user-acc test'' = ''User-acc Test'' \<and>
   stageTitleCase s = mapTokens capitalizeFromWord s"
proof -
  have "stageTitleCase ''production'' = ''Production''" by code_simp
  moreover have "stageTitleCase ''user-acc test'' = ''User-acc Test''" by code_simp
  moreover have "stageTitleCase s = mapTokens capitalizeFromWord s"
    by (simp add: stageTitleCase_def replaceWordRuns_mapTokens)
  ultimately show ?thesis by simp
qed

text \<open>
  Claim C8 as it is worded fails on a token that starts with punctuation: uppercasing the
  first character of \<open>''-abc''\<close> and lowercasing the remainder gives \<open>''-abc''\<close>, the
  code gives \<open>''-Abc''\<close>.
\<close>

theorem stageTitleCase_leading_punctuation_counterexample:
  "stageTitleCase ''-abc'' = ''-Abc'' \<and>
   spec_titleCase ''-abc'' = ''-abc'' \<and>
   stageTitleCase ''-abc'' \<noteq> spec_titleCase ''-abc''"
  by code_simp

section \<open>Decimal notation determines the number\<close>

lemma digitValue_digitChar: "d < 10 \<Longrightarrow> digitValue (digitChar d) = d"
  by (simp add: digitValue_def digitChar_def codeUnit_def of_char_of)

lemma readDigits_snoc: "readDigits (s @ [c]) = 10 * readDigits s + digitValue c"
  by (simp add: readDigits_def)

lemma readDigits_natToString: "readDigits (natToString n) = n"
proof (induction n rule: natToString.induct)
  case (1 n)
  show ?case
  proof (cases "n < 10")
    case True
    then show ?thesis
      by (simp add: natToString.simps[of n] readDigits_def digitValue_digitChar)
  next
    case False
    have "natToString n = natToString (n div 10) @ [digitChar (n mod 10)]"
      using False by (simp add: natToString.simps[of n])
    then have "readDigits (natToString n) = 10 * (n div 10) + n mod 10"
      using 1[OF False] by (simp add: readDigits_snoc digitValue_digitChar)
    then show ?thesis by simp
  qed
qed

lemma natToString_inj: "natToString m = natToString n \<Longrightarrow> m = n"
  by (metis readDigits_natToString)

lemma digitChar_not_minus: "d < 10 \<Longrightarrow> digitChar d \<noteq> CHR ''-''"
proof
  assume "d < 10" and "digitChar d = CHR ''-''"
  then have "codeUnit (digitChar d) = codeUnit CHR ''-''" by simp
  then show False using \<open>d < 10\<close> by (simp add: codeUnit_def digitChar_def of_char_of)
qed

lemma natToString_no_sign: "natToString n \<noteq> CHR ''-'' # s"
proof (induction n arbitrary: s rule: natToString.induct)
  case (1 n)
  show ?case
  proof (cases "n < 10")
    case True
    then show ?thesis using digitChar_not_minus[of n] by (simp add: natToString.simps[of n])
  next
    case False
    show ?thesis
    proof
      assume eq: "natToString n = CHR ''-'' # s"
      have "natToString n = natToString (n div 10) @ [digitChar (n mod 10)]"
        using False by (simp add: natToString.simps[of n])
      with eq have "natToString (n div 10) @ [digitChar (n mod 10)] = CHR ''-'' # s" by simp
      then show False
        using 1[OF False] digitChar_not_minus[of "n mod 10"]
        by (cases "natToString (n div 10)") auto
    qed
  qed
qed

lemma numberToString_inj:
  assumes eq: "numberToString i = numberToString j"
  shows "i = j"
proof (cases "i < 0")
  case True
  show ?thesis
  proof (cases "j < 0")
    case True
    with \<open>i < 0\<close> eq have "natToString (nat (- i)) = natToString (nat (- j))"
      by (simp add: numberToString_def)
    then have "nat (- i) = nat (- j)" by (rule natToString_inj)
    then show ?thesis using \<open>i < 0\<close> True by simp
  next
    case False
    with \<open>i < 0\<close> eq have "natToString (nat j) = CHR ''-'' # natToString (nat (- i))"
      by (simp add: numberToString_def)
    then show ?thesis using natToString_no_sign by blast
  qed
next
  case False
  show ?thesis
  proof (cases "j < 0")
    case True
    with \<open>\<not> i < 0\<close> eq have "natToString (nat i) = CHR ''-'' # natToString (nat (- j))"
      by (simp add: numberToString_def)
    then show ?thesis using natToString_no_sign by blast
  next
    case False
    with \<open>\<not> i < 0\<close> eq have "natToString (nat i) = natToString (nat j)"
      by (simp add: numberToString_def)
    then have "nat i = nat j" by (rule natToString_inj)
    then show ?thesis using \<open>\<not> i < 0\<close> False by simp
  qed
qed

section \<open>The graph that the constructor builds\<close>

text \<open>
  With a valid stage name the constructor returns a stack of ten children, in this
  order: the imported secret (reference 0), the cluster (1), the execution role (2),
  the task role (3), the task definition (4), the image repository (5), the security
  group of the service (6), the load-balanced service (7), the imported security group
  of the data store (8) and the output (9). With any other stage name it throws.
\<close>

lemma toLowerCase_HTTP: "toLowerCase (protocolName HTTP) = ''http''"
  unfolding protocolName_def by code_simp

lemma fixed_ids_resolved:
  "unresolved (sanitizeId ''dbSecret'') = False"
  "unresolved (sanitizeId ''ECR'') = False"
  by code_simp+

lemma validStageName_iff:
  "validStageName stage \<longleftrightarrow>
     \<not> unresolved (sanitizeId (''ECS'' @ stageTitleCase stage @ ''-Cluster'')) \<and>
     \<not> unresolved (sanitizeId (stageTitleCase stage @ ''ExecutionRole'')) \<and>
     \<not> unresolved (sanitizeId (stageTitleCase stage @ ''TaskRole'')) \<and>
     \<not> unresolved (sanitizeId (''TaskDef-'' @ stage)) \<and>
     \<not> unresolved (sanitizeId (stageTitleCase stage @ ''Container'')) \<and>
     \<not> unresolved (sanitizeId (stageTitleCase stage @ ''FargateSecurityGroup'')) \<and>
     \<not> unresolved (sanitizeId (stageTitleCase stage @ ''Service'')) \<and>
     \<not> unresolved (sanitizeId (''RDS'' @ stageTitleCase stage @ ''SecurityGroup'')) \<and>
     \<not> unresolved (sanitizeId (''LoadBalancer'' @ stageTitleCase stage @ ''DNS''))"
  using fixed_ids_resolved
  by (simp add: validStageName_def constructIds_def isResolved_def Let_def)

lemma bindE_newConstruct:
  "\<not> unresolved (sanitizeId cid) \<Longrightarrow>
   bindE (newConstruct cid c st) f =
     f (length (children st), st\<lparr>children := children st @ [(sanitizeId cid, c)]\<rparr>)"
  by (simp add: bindE_def newConstruct_def)

lemma bindE_newService:
  "\<not> unresolved (sanitizeId cid) \<Longrightarrow>
   bindE (newApplicationLoadBalancedFargateService cid props st) f =
     f (length (children st),
        st\<lparr>children := children st @
          [(sanitizeId cid,
            ApplicationLoadBalancedFargateService props
              [(''LoadBalancerDNS'', LoadBalancerDnsName (length (children st))),
               (''ServiceURL'',
                Concat (Plain (toLowerCase (protocolName (protocol props)) @ ''://''))
                       (LoadBalancerDnsName (length (children st))))])]\<rparr>)"
  by (simp add: bindE_def newConstruct_def newApplicationLoadBalancedFargateService_def Let_def)

lemmas ops = construct_def modify_def addToPolicy_def addToTaskRolePolicy_def
  addPortMappings_def allowFrom_def grantPull_def grantWrite_def grantRead_def

lemma bindE_addContainer:
  "\<not> unresolved (sanitizeId cid) \<Longrightarrow>
   construct st td = Some (FargateTaskDefinition t) \<Longrightarrow>
   bindE (addContainer td cid opts st) f =
     f ((td, length (containers t)),
        modify td (\<lambda>c. case c of
             FargateTaskDefinition t' \<Rightarrow>
               FargateTaskDefinition
                 (t'\<lparr>containers := containers t' @
                      [\<lparr>containerName = sanitizeId cid, options = opts,
                        portMappings = []\<rparr>]\<rparr>)
           | _ \<Rightarrow> c)
          (foldl (\<lambda>s binding.
                    case snd binding of
                      FromSecretsManager secret field \<Rightarrow> grantRead secret (executionRole t) s)
             (grantWrite (LogGroupArn td (length (containers t))) (executionRole t)
               (case containerImage opts of
                  FromEcrRepository repository tag \<Rightarrow> grantPull repository (executionRole t) st))
             (secrets opts)))"
  by (simp add: bindE_def addContainer_def Let_def)

lemma DeploymentStack_valid:
  assumes "validStageName (stageName props)"
  shows "DeploymentStack ctx props =
    Inr \<lparr>children =
      [(sanitizeId ''dbSecret'',
        Secret_fromSecretNameV2 (valueFromLookup ctx (RDS_SECRET_NAME_SSM_NAME ctx))),
       (sanitizeId (''ECS'' @ stageTitleCase (stageName props) @ ''-Cluster''),
        Cluster (getVpc ctx)),
       (sanitizeId (stageTitleCase (stageName props) @ ''ExecutionRole''),
        Role \<lparr>assumedBy = ECS_TASKS_URL,
              policyStatements =
                [\<lparr>effect = ALLOW,
                  actions =
                    [''ecr:GetAuthorizationToken'',
                     ''ecr:BatchCheckLayerAvailability'',
                     ''ecr:GetDownloadUrlForLayer'',
                     ''ecr:BatchGetImage'',
                     ''logs:CreateLogStream'',
                     ''logs:PutLogEvents''],
                  resources = [Plain ''*'']\<rparr>,
                 \<lparr>effect = ALLOW,
                  actions =
                    [''ecr:BatchCheckLayerAvailability'',
                     ''ecr:GetDownloadUrlForLayer'',
                     ''ecr:BatchGetImage''],
                  resources = [RepositoryArn 5]\<rparr>,
                 \<lparr>effect = ALLOW,
                  actions = [''ecr:GetAuthorizationToken''],
                  resources = [Plain ''*'']\<rparr>,
                 \<lparr>effect = ALLOW,
                  actions = [''logs:CreateLogStream'', ''logs:PutLogEvents''],
                  resources = [LogGroupArn 4 0]\<rparr>,
                 \<lparr>effect = ALLOW,
                  actions = [''secretsmanager:GetSecretValue'', ''secretsmanager:DescribeSecret''],
                  resources = [Concat (SecretArn 0) (Plain ''-??????'')]\<rparr>,
                 \<lparr>effect = ALLOW,
                  actions = [''secretsmanager:GetSecretValue'', ''secretsmanager:DescribeSecret''],
                  resources = [Concat (SecretArn 0) (Plain ''-??????'')]\<rparr>,
                 \<lparr>effect = ALLOW,
                  actions = [''secretsmanager:GetSecretValue'', ''secretsmanager:DescribeSecret''],
                  resources = [Concat (SecretArn 0) (Plain ''-??????'')]\<rparr>,
                 \<lparr>effect = ALLOW,
                  actions = [''secretsmanager:GetSecretValue'', ''secretsmanager:DescribeSecret''],
                  resources = [Concat (SecretArn 0) (Plain ''-??????'')]\<rparr>,
                 \<lparr>effect = ALLOW,
                  actions = [''secretsmanager:GetSecretValue'', ''secretsmanager:DescribeSecret''],
                  resources = [Concat (SecretArn 0) (Plain ''-??????'')]\<rparr>]\<rparr>),
       (sanitizeId (stageTitleCase (stageName props) @ ''TaskRole''),
        Role \<lparr>assumedBy = ECS_TASKS_URL,
              policyStatements =
                [\<lparr>effect = ALLOW,
                  actions = [''secretsmanager:GetSecretValue''],
                  resources = [SecretArn 0]\<rparr>]\<rparr>),
       (sanitizeId (''TaskDef-'' @ stageName props),
        FargateTaskDefinition
          \<lparr>memoryLimitMiB = 512, cpu = 256, executionRole = 2, taskRole = 3,
           containers =
             [\<lparr>containerName = sanitizeId (stageTitleCase (stageName props) @ ''Container''),
               options =
                 \<lparr>containerImage = FromEcrRepository 5 (imageTag props),
                  environment = [(''FORCE_DEPLOYMENT_ENV_VAR'', numberToString (dateNow ctx))],
                  secrets =
                    [(''DBHOST'', FromSecretsManager 0 ''host''),
                     (''DBNAME'', FromSecretsManager 0 ''dbname''),
                     (''DBUSER'', FromSecretsManager 0 ''username''),
                     (''DBPASS'', FromSecretsManager 0 ''password''),
                     (''DBPORT'', FromSecretsManager 0 ''port'')],
                  logging =
                    \<lparr>streamPrefix = stageTitleCase (stageName props) @ ''Logs'',
                     logRetention = TWO_WEEKS\<rparr>\<rparr>,
               portMappings = [\<lparr>containerPort = 3000\<rparr>]\<rparr>]\<rparr>),
       (sanitizeId ''ECR'', Repository_fromRepositoryName ECR_REPOSITORY_NAME),
       (sanitizeId (stageTitleCase (stageName props) @ ''FargateSecurityGroup''),
        SecurityGroup \<lparr>vpc = getVpc ctx, allowAllOutbound = True\<rparr>),
       (sanitizeId (stageTitleCase (stageName props) @ ''Service''),
        ApplicationLoadBalancedFargateService
          \<lparr>cluster = 1, taskDefinition = 4, publicLoadBalancer = True,
           assignPublicIp = True, protocol = HTTP, listenerPort = 80,
           securityGroups = [6], taskSubnets = \<lparr>subnetType = PUBLIC\<rparr>\<rparr>
          [(''LoadBalancerDNS'', LoadBalancerDnsName 7),
           (''ServiceURL'', Concat (Plain ''http://'') (LoadBalancerDnsName 7))]),
       (sanitizeId (''RDS'' @ stageTitleCase (stageName props) @ ''SecurityGroup''),
        SecurityGroup_fromSecurityGroupId
          (valueFromLookup ctx (RDS_SECURITY_GROUP_ID_SSM_NAME ctx))),
       (sanitizeId (''LoadBalancer'' @ stageTitleCase (stageName props) @ ''DNS''),
        CfnOutput (LoadBalancerDnsName 7))],
     allowRules =
       [\<lparr>securityGroup = 8, peer = 6, portRange = Tcp 5432,
         description = ''Allow traffic from fargate/ECS''\<rparr>,
        \<lparr>securityGroup = 6, peer = 8, portRange = Tcp 5432,
         description = ''Allow traffic from RDS''\<rparr>]\<rparr>"
  using assms
  unfolding validStageName_iff DeploymentStack_def Let_def
  by (simp add: bindE_newConstruct bindE_newService bindE_addContainer ops fixed_ids_resolved
      toLowerCase_HTTP)






lemma scenario_valid: "validStageName (stageName scenarioProps)"
  unfolding scenarioProps_def by code_simp

lemmas readers = constructs_def clusters_def clusterOf_def taskDefinitions_def taskDefinitionOf_def
  services_def serviceOf_def outputs_def outputsOf_def outputNames_def outputNamesOf_def
  rulesForPort_def allContainers_def containerPorts_def plainEnvironment_def
  forceDeploymentValues_def secretBindings_def policyOf_def executionPolicy_def taskPolicy_def
  renderStatements_def construct_def

lemma staging_valid: "validStageName ''staging''"
  by code_simp

lemma production_valid: "validStageName ''production''"
  by code_simp



section \<open>Properties of the deployment stack\<close>

text \<open>
  Claim C1, as amended. For every valid stage name and every image tag, one run of the
  constructor returns a stack with exactly one cluster, one task definition and one
  load-balanced service, and exactly two allow-rules for TCP port 5432: one from the
  service's security group (6) to the data store's (8) and one from the data store's to
  the service's. The constructor declares one output itself and the load-balanced
  service publishes two more, \<open>LoadBalancerDNS\<close> and \<open>ServiceURL\<close>: three outputs in all.
\<close>

theorem DeploymentStack_one_of_each:
  assumes "validStageName (stageName props)"
  shows "\<exists>st. DeploymentStack ctx props = Inr st \<and>
     length (clusters st) = 1 \<and>
     length (taskDefinitions st) = 1 \<and>
     length (services st) = 1 \<and>
     length (outputs st) = 3 \<and>
     outputNames st =
       [''LoadBalancerDNS'', ''ServiceURL'',
        sanitizeId (''LoadBalancer'' @ stageTitleCase (stageName props) @ ''DNS'')] \<and>
     length (rulesForPort (Tcp 5432) st) = 2 \<and>
     map (\<lambda>r. (peer r, securityGroup r)) (rulesForPort (Tcp 5432) st) = [(6, 8), (8, 6)] \<and>
     map securityGroups (services st) = [[6]] \<and>
     construct st 6 = Some (SecurityGroup \<lparr>vpc = getVpc ctx, allowAllOutbound = True\<rparr>) \<and>
     construct st 8
       = Some (SecurityGroup_fromSecurityGroupId
                (valueFromLookup ctx (RDS_SECURITY_GROUP_ID_SSM_NAME ctx)))"
  by (simp add: DeploymentStack_valid [OF assms] readers)

theorem DeploymentStack_one_of_each_witness:
  "validStageName (stageName scenarioProps) \<and>
   (\<exists>st. DeploymentStack scenarioContext scenarioProps = Inr st \<and>
      length (clusters st) = 1 \<and> length (taskDefinitions st) = 1 \<and>
      length (services st) = 1 \<and> length (outputs st) = 3 \<and>
      length (rulesForPort (Tcp 5432) st) = 2)"
  using scenario_valid DeploymentStack_one_of_each [OF scenario_valid, of scenarioContext]
  by - (elim exE conjE, intro conjI exI, assumption+)

text \<open>
  Claim C1 as it is worded fails: the run of the scenario publishes three outputs, not
  exactly one.
\<close>

theorem DeploymentStack_three_outputs_counterexample:
  "map_sum id (length \<circ> outputs) (DeploymentStack scenarioContext scenarioProps) = Inr 3 \<and>
   map_sum id (length \<circ> outputs) (DeploymentStack scenarioContext scenarioProps) \<noteq> Inr 1"
  by (simp add: DeploymentStack_valid [OF scenario_valid] readers)

text \<open>
  Claim C2, as amended. For every valid stage name and every image tag (so for
  \<open>''staging''\<close> and \<open>''abc123''\<close>), the one container of the task definition exposes
  container port 3000, and the one service is bound to that task definition and listens
  on port 80 with protocol HTTP on a public load balancer. The output that the
  constructor declares (9) is the hostname of that service's load balancer, a value that
  the provisioning engine assigns. It is not the only output: the service publishes the
  same hostname as \<open>LoadBalancerDNS\<close> and \<open>http://\<close> followed by the hostname as
  \<open>ServiceURL\<close>.
\<close>

theorem DeploymentStack_ports_and_output:
  assumes "validStageName (stageName props)"
  shows "\<exists>st. DeploymentStack ctx props = Inr st \<and>
     containerPorts st = [3000] \<and>
     map listenerPort (services st) = [80] \<and>
     map protocol (services st) = [HTTP] \<and>
     map publicLoadBalancer (services st) = [True] \<and>
     map taskDefinition (services st) = [4] \<and>
     construct st 4 = Some (FargateTaskDefinition (hd (taskDefinitions st))) \<and>
     construct st 7
       = Some (ApplicationLoadBalancedFargateService (hd (services st))
                [(''LoadBalancerDNS'', LoadBalancerDnsName 7),
                 (''ServiceURL'', Concat (Plain ''http://'') (LoadBalancerDnsName 7))]) \<and>
     construct st 9 = Some (CfnOutput (LoadBalancerDnsName 7)) \<and>
     outputs st =
       [LoadBalancerDnsName 7,
        Concat (Plain ''http://'') (LoadBalancerDnsName 7),
        LoadBalancerDnsName 7]"
  by (simp add: DeploymentStack_valid [OF assms] readers)

theorem DeploymentStack_ports_and_output_witness:
  "validStageName (stageName scenarioProps) \<and>
   (\<exists>st. DeploymentStack scenarioContext scenarioProps = Inr st \<and>
      containerPorts st = [3000] \<and>
      map listenerPort (services st) = [80] \<and>
      map protocol (services st) = [HTTP] \<and>
      construct st 9 = Some (CfnOutput (LoadBalancerDnsName 7)))"
  using scenario_valid DeploymentStack_ports_and_output [OF scenario_valid, of scenarioContext]
  by - (elim exE conjE, intro conjI exI, assumption+)

text \<open>
  Claim C2 as it is worded fails: in the run of the scenario there is no single
  published output, and one of the three published values is a URL, not the hostname.
\<close>

theorem DeploymentStack_output_not_single_counterexample:
  "map_sum id outputs (DeploymentStack scenarioContext scenarioProps) =
     Inr [LoadBalancerDnsName 7,
          Concat (Plain ''http://'') (LoadBalancerDnsName 7),
          LoadBalancerDnsName 7]"
  by (simp add: DeploymentStack_valid [OF scenario_valid] readers)

text \<open>
  Claim C3. For every valid stage name and every image tag, the container's secret
  bindings are exactly five, to the fields \<open>host\<close>, \<open>dbname\<close>, \<open>username\<close>, \<open>password\<close> and
  \<open>port\<close> of the imported database secret (reference 0), each a reference into the secret
  and none a plain value: the only plain environment variable is the
  forced-redeployment one.
\<close>

theorem DeploymentStack_secret_bindings:
  assumes "validStageName (stageName props)"
  shows "\<exists>st. DeploymentStack ctx props = Inr st \<and>
     secretBindings st =
       [(''DBHOST'', FromSecretsManager 0 ''host''),
        (''DBNAME'', FromSecretsManager 0 ''dbname''),
        (''DBUSER'', FromSecretsManager 0 ''username''),
        (''DBPASS'', FromSecretsManager 0 ''password''),
        (''DBPORT'', FromSecretsManager 0 ''port'')] \<and>
     construct st 0
       = Some (Secret_fromSecretNameV2 (valueFromLookup ctx (RDS_SECRET_NAME_SSM_NAME ctx))) \<and>
     map fst (plainEnvironment st) = [''FORCE_DEPLOYMENT_ENV_VAR'']"
  by (simp add: DeploymentStack_valid [OF assms] readers)

theorem DeploymentStack_secret_bindings_witness:
  "validStageName (stageName scenarioProps) \<and>
   (\<exists>st. DeploymentStack scenarioContext scenarioProps = Inr st \<and>
      secretBindings st =
        [(''DBHOST'', FromSecretsManager 0 ''host''),
         (''DBNAME'', FromSecretsManager 0 ''dbname''),
         (''DBUSER'', FromSecretsManager 0 ''username''),
         (''DBPASS'', FromSecretsManager 0 ''password''),
         (''DBPORT'', FromSecretsManager 0 ''port'')] \<and>
      map fst (plainEnvironment st) = [''FORCE_DEPLOYMENT_ENV_VAR''])"
  using scenario_valid DeploymentStack_secret_bindings [OF scenario_valid, of scenarioContext]
  by - (elim exE conjE, intro conjI exI, assumption+)

text \<open>
  Claim C4, as amended. For every valid stage name and every image tag, the statement
  that the constructor attaches to the execution role is an allow statement with an
  explicit list of six actions, four of the image repository service for pulling an
  image and two of the log service for writing logs. It is not the whole policy of the
  role: \<^verbatim>\<open>addContainer\<close> grants four more statements, the pull actions on the
  repository, the authorization token, the log writing on the container's log group and
  the reading of the database secret. No action of the five statements has a wildcard.
\<close>

theorem DeploymentStack_execution_actions:
  assumes "validStageName (stageName props)"
  shows "\<exists>st. DeploymentStack ctx props = Inr st \<and>
     map effect (executionPolicy st) = [ALLOW, ALLOW, ALLOW, ALLOW, ALLOW] \<and>
     map actions (executionPolicy st) =
       [[''ecr:GetAuthorizationToken'',
         ''ecr:BatchCheckLayerAvailability'',
         ''ecr:GetDownloadUrlForLayer'',
         ''ecr:BatchGetImage'',
         ''logs:CreateLogStream'',
         ''logs:PutLogEvents''],
        [''ecr:BatchCheckLayerAvailability'',
         ''ecr:GetDownloadUrlForLayer'',
         ''ecr:BatchGetImage''],
        [''ecr:GetAuthorizationToken''],
        [''logs:CreateLogStream'', ''logs:PutLogEvents''],
        [''secretsmanager:GetSecretValue'', ''secretsmanager:DescribeSecret'']] \<and>
     map resources (executionPolicy st) =
       [[Plain ''*''],
        [RepositoryArn 5],
        [Plain ''*''],
        [LogGroupArn 4 0],
        [Concat (SecretArn 0) (Plain ''-??????'')]] \<and>
     map (filter isWildcardAction \<circ> actions) (executionPolicy st) = [[], [], [], [], []] \<and>
     map executionRole (taskDefinitions st) = [2]"
  by (simp add: DeploymentStack_valid [OF assms] readers isWildcardAction_def)

theorem DeploymentStack_execution_actions_witness:
  "validStageName (stageName scenarioProps) \<and>
   (\<exists>st. DeploymentStack scenarioContext scenarioProps = Inr st \<and>
      map effect (executionPolicy st) = [ALLOW, ALLOW, ALLOW, ALLOW, ALLOW] \<and>
      map (filter isWildcardAction \<circ> actions) (executionPolicy st) = [[], [], [], [], []])"
  using scenario_valid DeploymentStack_execution_actions [OF scenario_valid, of scenarioContext]
  by - (elim exE conjE, intro conjI exI, assumption+)

text \<open>
  Claim C4 as it is worded fails: in the run of the scenario the execution role's policy
  has five statements, actions of the secrets service among them, and the authorization
  token is allowed twice; it is not the least that pulling an image and writing logs
  need.
\<close>

theorem DeploymentStack_execution_policy_counterexample:
  "map_sum id (map (map actionService \<circ> actions) \<circ> executionPolicy)
     (DeploymentStack scenarioContext scenarioProps) =
     Inr [[''ecr'', ''ecr'', ''ecr'', ''ecr'', ''logs'', ''logs''],
          [''ecr'', ''ecr'', ''ecr''],
          [''ecr''],
          [''logs'', ''logs''],
          [''secretsmanager'', ''secretsmanager'']]"
  by (simp add: DeploymentStack_valid [OF scenario_valid] readers actionService_def)

text \<open>
  Claim C5. In one context and with one image tag, two runs with any two valid stage
  names (so also two whose title-cased forms differ) build resource graphs that are
  equal in every functional field: they differ at most in the construct identifiers, the
  container name and the log-stream prefix.
\<close>

theorem DeploymentStack_stage_noninterference:
  assumes "validStageName s1" and "validStageName s2"
  shows "\<exists>st1 st2.
     DeploymentStack ctx \<lparr>stageName = s1, imageTag = tag\<rparr> = Inr st1 \<and>
     DeploymentStack ctx \<lparr>stageName = s2, imageTag = tag\<rparr> = Inr st2 \<and>
     functionalFields st1 = functionalFields st2"
  using assms
  by (simp add: DeploymentStack_valid functionalFields_def unnamedConstruct_def
      unnamedContainer_def)

theorem DeploymentStack_stage_noninterference_witness:
  "validStageName ''staging'' \<and> validStageName ''production'' \<and>
   (\<exists>st1 st2.
     DeploymentStack scenarioContext \<lparr>stageName = ''staging'', imageTag = ''abc123''\<rparr> = Inr st1 \<and>
     DeploymentStack scenarioContext \<lparr>stageName = ''production'', imageTag = ''abc123''\<rparr> = Inr st2 \<and>
     functionalFields st1 = functionalFields st2)"
  using staging_valid production_valid
    DeploymentStack_stage_noninterference
      [OF staging_valid production_valid, of scenarioContext "''abc123''"]
  by - (intro conjI, assumption+)

text \<open>
  Claim C6. Two runs with the same valid stage name and the same image tag whose clock
  readings differ give different values of \<^verbatim>\<open>FORCE_DEPLOYMENT_ENV_VAR\<close>; each run sets
  exactly one value, the decimal notation of its clock reading.
\<close>

theorem DeploymentStack_force_redeploy_differs:
  assumes "validStageName (stageName props)" and "dateNow ctx1 \<noteq> dateNow ctx2"
  shows "\<exists>st1 st2.
     DeploymentStack ctx1 props = Inr st1 \<and>
     DeploymentStack ctx2 props = Inr st2 \<and>
     forceDeploymentValues st1 = [numberToString (dateNow ctx1)] \<and>
     forceDeploymentValues st2 = [numberToString (dateNow ctx2)] \<and>
     forceDeploymentValues st1 \<noteq> forceDeploymentValues st2"
  using numberToString_inj assms(2)
  by (auto simp: DeploymentStack_valid [OF assms(1)] readers)

theorem DeploymentStack_force_redeploy_differs_witness:
  "validStageName (stageName scenarioProps) \<and>
   dateNow scenarioContext \<noteq> dateNow (scenarioContext\<lparr>dateNow := 1001\<rparr>) \<and>
   (\<exists>st1 st2.
     DeploymentStack scenarioContext scenarioProps = Inr st1 \<and>
     DeploymentStack (scenarioContext\<lparr>dateNow := 1001\<rparr>) scenarioProps = Inr st2 \<and>
     forceDeploymentValues st1 \<noteq> forceDeploymentValues st2)"
proof -
  have clocks: "dateNow scenarioContext \<noteq> dateNow (scenarioContext\<lparr>dateNow := 1001\<rparr>)"
    by (simp add: scenarioContext_def)
  show ?thesis
    using scenario_valid clocks
      DeploymentStack_force_redeploy_differs [OF scenario_valid clocks]
    by - (elim exE conjE, intro conjI exI, assumption+)
qed




text \<open>
  Claim C10. For every valid stage name and every image tag, the statement that the
  constructor attaches to the execution role, the one with the list of six actions,
  applies to the resource wildcard \<open>''*''\<close>, and the policy of the task role is one allow
  statement with the single action \<open>''secretsmanager:GetSecretValue''\<close> on exactly the
  identifier of the imported database secret (reference 0).
\<close>

theorem DeploymentStack_policy_scopes:
  assumes "validStageName (stageName props)"
  shows "\<exists>st. DeploymentStack ctx props = Inr st \<and>
     map resources
       (filter (\<lambda>s. actions s =
                  [''ecr:GetAuthorizationToken'',
                   ''ecr:BatchCheckLayerAvailability'',
                   ''ecr:GetDownloadUrlForLayer'',
                   ''ecr:BatchGetImage'',
                   ''logs:CreateLogStream'',
                   ''logs:PutLogEvents''])
          (executionPolicy st)) = [[Plain ''*'']] \<and>
     taskPolicy st =
       [\<lparr>effect = ALLOW,
         actions = [''secretsmanager:GetSecretValue''],
         resources = [SecretArn 0]\<rparr>] \<and>
     construct st 0
       = Some (Secret_fromSecretNameV2 (valueFromLookup ctx (RDS_SECRET_NAME_SSM_NAME ctx)))"
  by (simp add: DeploymentStack_valid [OF assms] readers)

theorem DeploymentStack_policy_scopes_witness:
  "validStageName (stageName scenarioProps) \<and>
   (\<exists>st. DeploymentStack scenarioContext scenarioProps = Inr st \<and>
      taskPolicy st =
        [\<lparr>effect = ALLOW,
          actions = [''secretsmanager:GetSecretValue''],
          resources = [SecretArn 0]\<rparr>])"
  using scenario_valid DeploymentStack_policy_scopes [OF scenario_valid, of scenarioContext]
  by - (elim exE conjE, intro conjI exI, assumption+)

end
